theory Spec2Isabelle
  imports Main "HOL-Library.Word" "HOL-Library.Signed_Division"
begin

unbundle bit_operations_syntax

section \<open>Processor state\<close>

text \<open>
  \<^verbatim>\<open>struct i960 { uint32_t r[32], ip, ac, pc, tc; }\<close> of \<^verbatim>\<open>i960-emu.h\<close>. The register file
  is indexed by the 5-bit register fields of the opcode (0..31), so it is a function of the
  index. Every operation of the emulator receives the \<^verbatim>\<open>struct i960 *\<close> and may, through it,
  reach the two external collaborators declared in the same header: the memory
  (\<^verbatim>\<open>i960_read_w\<close>, \<^verbatim>\<open>i960_write_w\<close>) and the fault reporter (\<^verbatim>\<open>i960_fault\<close>). Their state is
  carried in the two last fields.
\<close>

type_synonym u32 = "32 word"
type_synonym u64 = "64 word"

record i960 =
  r :: "nat \<Rightarrow> u32"
  ip :: u32
  ac :: u32
  pc :: u32
  tc :: u32
  mem :: "u32 \<Rightarrow> 8 word"
  faults :: "int list"

definition I960_PFP :: nat where "I960_PFP = 0"
definition I960_SP :: nat where "I960_SP = 1"
definition I960_RIP :: nat where "I960_RIP = 2"
definition I960_LP :: nat where "I960_LP = 30"
definition I960_FP :: nat where "I960_FP = 31"

definition I960_CC_MASK :: u32 where "I960_CC_MASK = 7"
definition I960_OF_POS :: u32 where "I960_OF_POS = 8"
definition I960_OM_POS :: u32 where "I960_OM_POS = 12"

section \<open>External collaborators\<close>

text \<open>
  Modelled from the spec: \<^verbatim>\<open>i960_fault\<close> is only declared in \<^verbatim>\<open>i960-emu.h\<close>; the spec calls it
  an externally defined fault reporter that may post a pending fault. The model posts the
  type code to the log of signalled faults and returns: the callers in \<^verbatim>\<open>i960-core.c\<close> are
  written for a reporter that returns (\<^verbatim>\<open>i960_div_check\<close> and \<^verbatim>\<open>i960_check_em\<close> report and then
  return a flag that their callers test).
\<close>

definition i960_fault :: "i960 \<Rightarrow> int \<Rightarrow> i960" where
  "i960_fault s type = s\<lparr>faults := faults s @ [type]\<rparr>"

text \<open>
  Modelled from the spec: the memory accessors \<^verbatim>\<open>i960_read_b\<close>, \<^verbatim>\<open>i960_read_s\<close>, \<^verbatim>\<open>i960_read_w\<close>,
  \<^verbatim>\<open>i960_write_b\<close>, \<^verbatim>\<open>i960_write_s\<close> and \<^verbatim>\<open>i960_write_w\<close> are only declared in \<^verbatim>\<open>i960-emu.h\<close>;
  the spec describes a flat 32-bit address space of bytes with little-endian short and word
  access, and writes that truncate the 32-bit value carried. A word read returns the four
  bytes at \<open>addr .. addr + 3\<close>, a word write stores them.
\<close>

definition i960_read_w :: "i960 \<Rightarrow> u32 \<Rightarrow> u32" where
  "i960_read_w s addr =
     ucast (mem s addr) OR push_bit 8 (ucast (mem s (addr + 1))) OR
     push_bit 16 (ucast (mem s (addr + 2))) OR push_bit 24 (ucast (mem s (addr + 3)))"

definition i960_write_w :: "i960 \<Rightarrow> u32 \<Rightarrow> u32 \<Rightarrow> i960" where
  "i960_write_w s addr x =
     s\<lparr>mem := (mem s)(addr := ucast x, addr + 1 := ucast (drop_bit 8 x),
                       addr + 2 := ucast (drop_bit 16 x), addr + 3 := ucast (drop_bit 24 x))\<rparr>"

definition i960_read_b :: "i960 \<Rightarrow> u32 \<Rightarrow> 8 word" where
  "i960_read_b s addr = mem s addr"

definition i960_read_s :: "i960 \<Rightarrow> u32 \<Rightarrow> 16 word" where
  "i960_read_s s addr = ucast (mem s addr) OR push_bit 8 (ucast (mem s (addr + 1)))"

definition i960_write_b :: "i960 \<Rightarrow> u32 \<Rightarrow> u32 \<Rightarrow> i960" where
  "i960_write_b s addr x = s\<lparr>mem := (mem s)(addr := ucast x)\<rparr>"

definition i960_write_s :: "i960 \<Rightarrow> u32 \<Rightarrow> u32 \<Rightarrow> i960" where
  "i960_write_s s addr x =
     s\<lparr>mem := (mem s)(addr := ucast x, addr + 1 := ucast (drop_bit 8 x))\<rparr>"

section \<open>Bit access helpers (i960-emu-bits.h)\<close>

definition u32_bit_select :: "u32 \<Rightarrow> u32 \<Rightarrow> u32" where
  "u32_bit_select x pos = drop_bit (unat (pos AND 31)) x AND 1"

definition u32_bit_mask :: "u32 \<Rightarrow> u32" where
  "u32_bit_mask pos = push_bit (unat (pos AND 31)) 1"

text \<open>
  \<^verbatim>\<open>(x >> (pos & 31)) & ~(~(uint32_t) 0 << count)\<close>. Every call in the sources passes a
  \<open>count\<close> below 32.
\<close>

definition u32_extract :: "u32 \<Rightarrow> u32 \<Rightarrow> u32 \<Rightarrow> u32" where
  "u32_extract x pos count =
     drop_bit (unat (pos AND 31)) x AND NOT (push_bit (unat count) (NOT 0))"

section \<open>Comparator (i960-emu-compare.h)\<close>

definition i960_set_cond :: "i960 \<Rightarrow> u32 \<Rightarrow> i960" where
  "i960_set_cond s cc = s\<lparr>ac := (ac s AND NOT I960_CC_MASK) OR cc\<rparr>"

text \<open>The flag \<open>I\<close> is a C \<^verbatim>\<open>int\<close> used as a truth value: signed compare when non-zero.\<close>

definition i960_cmp :: "i960 \<Rightarrow> u32 \<Rightarrow> u32 \<Rightarrow> u32 \<Rightarrow> i960" where
  "i960_cmp s a b I =
     (let lt = (if I \<noteq> 0 then sint a < sint b else a < b)
      in i960_set_cond s (if lt then 4 else if a = b then 2 else 1))"


section \<open>Fault helpers (i960-emu-faults.h)\<close>

definition i960_on_undef :: "i960 \<Rightarrow> i960" where
  "i960_on_undef s = i960_fault s 0x20001"

definition i960_on_overflow :: "i960 \<Rightarrow> i960" where
  "i960_on_overflow s =
     (if u32_bit_select (ac s) I960_OM_POS \<noteq> 0
      then s\<lparr>ac := ac s OR u32_bit_mask I960_OF_POS\<rparr>
      else i960_fault s 0x30001)"

section \<open>Branch logic (i960-emu-branch.h)\<close>

abbreviation set_r :: "i960 \<Rightarrow> nat \<Rightarrow> u32 \<Rightarrow> i960" where
  "set_r s c v \<equiv> s\<lparr>r := (r s)(c := v)\<rparr>"

text \<open>
  \<^verbatim>\<open>for (i = 0; i < 16; ++i) o->r[c + i] = i960_read_w (o, efa + i);\<close> The loop counter is the
  first argument; the address \<open>efa + i\<close> is truncated to 32 bits by the call.
\<close>

function i960_ldx_loop :: "nat \<Rightarrow> i960 \<Rightarrow> u32 \<Rightarrow> nat \<Rightarrow> i960" where
  "i960_ldx_loop i s efa c =
     (if i < 16
      then i960_ldx_loop (i + 1) (set_r s (c + i) (i960_read_w s (efa + of_nat i))) efa c
      else s)"
  by pat_completeness auto
termination
  by (relation "measure (\<lambda>(i, s, efa, c). 16 - i)") auto

declare i960_ldx_loop.simps [simp del]

definition i960_ldx :: "i960 \<Rightarrow> u32 \<Rightarrow> nat \<Rightarrow> i960" where
  "i960_ldx s efa c = i960_ldx_loop 0 s efa c"

text \<open>\<^verbatim>\<open>for (i = 0; i < 16; ++i) i960_write_w (o, efa + i, o->r[c + i]);\<close>\<close>

function i960_stx_loop :: "nat \<Rightarrow> i960 \<Rightarrow> u32 \<Rightarrow> nat \<Rightarrow> i960" where
  "i960_stx_loop i s efa c =
     (if i < 16
      then i960_stx_loop (i + 1) (i960_write_w s (efa + of_nat i) (r s (c + i))) efa c
      else s)"
  by pat_completeness auto
termination
  by (relation "measure (\<lambda>(i, s, efa, c). 16 - i)") auto

declare i960_stx_loop.simps [simp del]

definition i960_stx :: "i960 \<Rightarrow> u32 \<Rightarrow> nat \<Rightarrow> i960" where
  "i960_stx s efa c = i960_stx_loop 0 s efa c"

definition i960_b :: "i960 \<Rightarrow> u32 \<Rightarrow> i960" where
  "i960_b s efa = s\<lparr>ip := efa\<rparr>"

definition i960_bal :: "i960 \<Rightarrow> u32 \<Rightarrow> nat \<Rightarrow> i960" where
  "i960_bal s efa link = i960_b (set_r s link (ip s)) efa"

definition i960_call :: "i960 \<Rightarrow> u32 \<Rightarrow> i960" where
  "i960_call s efa =
     (let fp = (r s I960_SP + 63) AND NOT 63;
          s1 = set_r s I960_RIP (ip s);
          s2 = i960_stx s1 (r s1 I960_FP) 16;
          s3 = set_r s2 I960_PFP (r s2 I960_FP);
          s4 = set_r s3 I960_FP fp;
          s5 = set_r s4 I960_SP (fp + 64)
      in i960_b s5 efa)"

definition i960_ret :: "i960 \<Rightarrow> i960" where
  "i960_ret s =
     (let s1 = set_r s I960_FP (r s I960_PFP AND NOT 63);
          s2 = i960_ldx s1 (r s1 I960_FP) 16
      in i960_b s2 (r s2 I960_RIP))"

text \<open>
  \<^verbatim>\<open>return (o->ac && cc) != 0 || (o->ac & I960_CC_MASK) == cc;\<close> with
  \<^verbatim>\<open>cc = u32_extract (op, 24, 3)\<close>. The first operator is the logical conjunction of C:
  it holds when both operands are non-zero.
\<close>

definition i960_check_cond :: "i960 \<Rightarrow> u32 \<Rightarrow> bool" where
  "i960_check_cond s op =
     (let cc = u32_extract op 24 3
      in (ac s \<noteq> 0 \<and> cc \<noteq> 0) \<or> ac s AND I960_CC_MASK = cc)"

definition i960_bcc :: "i960 \<Rightarrow> u32 \<Rightarrow> u32 \<Rightarrow> i960" where
  "i960_bcc s op efa = (if i960_check_cond s op then i960_b s efa else s)"

definition i960_faultcc :: "i960 \<Rightarrow> u32 \<Rightarrow> u32 \<Rightarrow> i960" where
  "i960_faultcc s op efa = (if i960_check_cond s op then i960_fault s 0x50001 else s)"

section \<open>CTRL format operations\<close>

definition ctrl_op :: "i960 \<Rightarrow> u32 \<Rightarrow> u32 \<Rightarrow> i960" where
  "ctrl_op s op efa =
     (let C4 = u32_bit_select op (24 + 4);
          C3 = u32_bit_select op (24 + 3);
          i = u32_extract op (24 + 0) 2
      in if C4 = 0 then
           (if i = 0 then i960_b s efa
            else if i = 1 then i960_call s efa
            else if i = 2 then i960_ret s
            else i960_bal s efa I960_LP)
         else if C3 = 0 then i960_bcc s op efa
         else i960_faultcc s op efa)"

text \<open>\<^verbatim>\<open>(((int32_t) op << 8) >> 8) & ~3\<close>: the 24-bit displacement, sign-extended.\<close>

definition i960_ctrl :: "i960 \<Rightarrow> u32 \<Rightarrow> u32 \<Rightarrow> i960" where
  "i960_ctrl s op ip0 =
     (let disp = signed_drop_bit 8 (push_bit 8 op) AND NOT 3
      in ctrl_op s op (ip0 + disp))"

section \<open>COBR format operations\<close>

definition cobr_testcc :: "i960 \<Rightarrow> u32 \<Rightarrow> u32 \<Rightarrow> u32 \<Rightarrow> u32 \<Rightarrow> i960" where
  "cobr_testcc s op a b disp =
     (let c = unat (u32_extract op 19 5)
      in set_r s c (of_bool (i960_check_cond s op)))"

definition cobr_bb :: "i960 \<Rightarrow> u32 \<Rightarrow> u32 \<Rightarrow> u32 \<Rightarrow> u32 \<Rightarrow> i960" where
  "cobr_bb s op a b disp =
     (let C0 = u32_bit_select op (24 + 0);
          ok = (u32_bit_select b a XOR C0 = 0);
          s1 = i960_set_cond s (if ok then 2 else 0)
      in if ok then i960_b s1 (ip s1 + disp) else s1)"

definition cobr_cmpbcc :: "i960 \<Rightarrow> u32 \<Rightarrow> u32 \<Rightarrow> u32 \<Rightarrow> u32 \<Rightarrow> i960" where
  "cobr_cmpbcc s op a b disp =
     (let C3 = u32_bit_select op (24 + 3);
          s1 = i960_cmp s a b C3
      in i960_bcc s1 op (ip s1 + disp))"

text \<open>
  \<^verbatim>\<open>if (!C4) cobr_testcc (...); else if (op == 0x30 || op == 0x37) cobr_bb (...); else
  cobr_cmpbcc (...);\<close> where \<open>op\<close> is the whole 32-bit instruction word.
\<close>

definition cobr_op :: "i960 \<Rightarrow> u32 \<Rightarrow> u32 \<Rightarrow> u32 \<Rightarrow> u32 \<Rightarrow> i960" where
  "cobr_op s op a b disp =
     (let C4 = u32_bit_select op (24 + 4)
      in if C4 = 0 then cobr_testcc s op a b disp
         else if op = 0x30 \<or> op = 0x37 then cobr_bb s op a b disp
         else cobr_cmpbcc s op a b disp)"

definition i960_cobr :: "i960 \<Rightarrow> u32 \<Rightarrow> u32 \<Rightarrow> i960" where
  "i960_cobr s op ip0 =
     (let ai = u32_extract op 19 5;
          bi = u32_extract op 14 5;
          a = (if u32_bit_select op 13 \<noteq> 0 then ai else r s (unat ai));
          b = r s (unat bi);
          disp = signed_drop_bit 19 (push_bit 19 op) AND NOT 3
      in cobr_op s op a b disp)"

section \<open>REG format: helpers (i960-core.c)\<close>

definition u32_modify :: "u32 \<Rightarrow> u32 \<Rightarrow> u32 \<Rightarrow> u32" where
  "u32_modify old new m = (old AND NOT m) OR (new AND m)"

text \<open>The C function posts the fault and returns \<^verbatim>\<open>d != 0\<close>; the model returns both.\<close>

definition i960_div_check :: "i960 \<Rightarrow> u32 \<Rightarrow> i960 \<times> bool" where
  "i960_div_check s d = (if d = 0 then i960_fault s 0x30002 else s, d \<noteq> 0)"





definition u32_setbit :: "u32 \<Rightarrow> u32 \<Rightarrow> u32" where
  "u32_setbit x pos = x OR u32_bit_mask pos"

definition u32_clrbit :: "u32 \<Rightarrow> u32 \<Rightarrow> u32" where
  "u32_clrbit x pos = x AND NOT (u32_bit_mask pos)"


section \<open>REG format: adder\<close>




section \<open>REG format: shifts\<close>

definition reg_shri :: "i960 \<Rightarrow> u32 \<Rightarrow> u32 \<Rightarrow> u32 \<Rightarrow> nat \<Rightarrow> i960" where
  "reg_shri s op a b c = set_r s c (signed_drop_bit (unat (if a < 32 then a else 31)) b)"

text \<open>
  \<^verbatim>\<open>o->r[c] = (int32_t) b >> n; if (b < (o->r[c] << n)) o->r[c] += 1;\<close> The comparison is
  between two \<^verbatim>\<open>uint32_t\<close> values, hence unsigned.
\<close>

definition reg_shrdi :: "i960 \<Rightarrow> u32 \<Rightarrow> u32 \<Rightarrow> u32 \<Rightarrow> nat \<Rightarrow> i960" where
  "reg_shrdi s op a b c =
     (let n = (if a < 32 then a else 31);
          s1 = set_r s c (signed_drop_bit (unat n) b)
      in if b < push_bit (unat n) (r s1 c) then set_r s1 c (r s1 c + 1) else s1)"

section \<open>REG format: compare and misc\<close>


text \<open>The active branch of the \<^verbatim>\<open>#if 1\<close> in \<^verbatim>\<open>reg_scanbyte\<close>.\<close>

definition reg_scanbyte :: "i960 \<Rightarrow> u32 \<Rightarrow> u32 \<Rightarrow> u32 \<Rightarrow> nat \<Rightarrow> i960" where
  "reg_scanbyte s op a b c =
     (let c0 = a XOR b;
          c1 = drop_bit 16 c0 AND c0;
          c2 = drop_bit 8 c1 AND c1;
          cond = (c2 AND 0xff = 0)
      in i960_set_cond s (if cond then 2 else 0))"


section \<open>REG format: bit field operations\<close>



definition reg_modac :: "i960 \<Rightarrow> u32 \<Rightarrow> u32 \<Rightarrow> u32 \<Rightarrow> nat \<Rightarrow> i960" where
  "reg_modac s op a b c =
     (let ac0 = ac s;
          s1 = s\<lparr>ac := u32_modify ac0 b a\<rparr>
      in set_r s1 c ac0)"

section \<open>REG format: move\<close>

text \<open>
  The \<^verbatim>\<open>switch (i)\<close> of \<^verbatim>\<open>reg_move\<close> has no \<^verbatim>\<open>break\<close>: case 3 falls through to 2, 1 and 0.
  \<open>i\<close> is a two-bit field, so one of the four cases is always entered.
\<close>

definition reg_move :: "i960 \<Rightarrow> u32 \<Rightarrow> u32 \<Rightarrow> u32 \<Rightarrow> nat \<Rightarrow> i960" where
  "reg_move s op a b c =
     (let i = u32_extract op (24 + 0) 2;
          src = unat (u32_extract op 0 5);
          s3 = (if i = 3 then set_r s (c OR 3) (r s (src OR 3)) else s);
          s2 = (if i = 3 \<or> i = 2 then set_r s3 (c OR 2) (r s3 (src OR 2)) else s3);
          s1 = (if i = 3 \<or> i = 2 \<or> i = 1 then set_r s2 (c OR 1) (r s2 (src OR 1)) else s2)
      in if i = 3 \<or> i = 2 \<or> i = 1 \<or> i = 0 then set_r s1 (c OR 0) a else s1)"

section \<open>REG format: multiply and divide\<close>

definition reg_emul :: "i960 \<Rightarrow> u32 \<Rightarrow> u32 \<Rightarrow> u32 \<Rightarrow> nat \<Rightarrow> i960" where
  "reg_emul s op a b c =
     (let res = (ucast a :: u64) * ucast b;
          s1 = set_r s (c OR 0) (ucast res)
      in set_r s1 (c OR 1) (ucast (drop_bit 32 res)))"

text \<open>
  \<^verbatim>\<open>o->r[c | 0] = ok ? bl % a : b; o->r[c | 1] = ok ? bl / a : 0;\<close> with the 64-bit dividend
  \<open>bl\<close>; the quotient and the remainder are truncated to 32 bits by the assignments.
\<close>

definition reg_ediv :: "i960 \<Rightarrow> u32 \<Rightarrow> u32 \<Rightarrow> u32 \<Rightarrow> nat \<Rightarrow> i960" where
  "reg_ediv s op a b c =
     (let bh = r s (unat (u32_extract op 14 5 OR 1));
          bl = push_bit 32 (ucast bh :: u64) OR ucast b;
          (s1, ok) = i960_div_check s a;
          s2 = set_r s1 (c OR 0) (if ok then ucast (bl mod ucast a) else b)
      in set_r s2 (c OR 1) (if ok then ucast (bl div ucast a) else 0))"

definition i960_fpu :: "i960 \<Rightarrow> u32 \<Rightarrow> u32 \<Rightarrow> u32 \<Rightarrow> nat \<Rightarrow> i960" where
  "i960_fpu s op a b c = i960_on_undef s"

definition reg_67 :: "i960 \<Rightarrow> u32 \<Rightarrow> u32 \<Rightarrow> u32 \<Rightarrow> nat \<Rightarrow> i960" where
  "reg_67 s op a b c =
     (let F0 = u32_bit_select op (7 + 0);
          F2 = u32_bit_select op (7 + 2)
      in if F2 \<noteq> 0 then i960_fpu s op a b c
         else if F0 \<noteq> 0 then reg_ediv s op a b c
         else reg_emul s op a b c)"

definition reg_mulo :: "i960 \<Rightarrow> u32 \<Rightarrow> u32 \<Rightarrow> u32 \<Rightarrow> nat \<Rightarrow> i960" where
  "reg_mulo s op a b c = set_r s c (a * b)"

definition reg_divo :: "i960 \<Rightarrow> u32 \<Rightarrow> u32 \<Rightarrow> u32 \<Rightarrow> nat \<Rightarrow> i960" where
  "reg_divo s op a b c =
     (let F1 = u32_bit_select op (7 + 1);
          (s1, ok) = i960_div_check s a
      in if ok then set_r s1 c (if F1 \<noteq> 0 then b div a else b mod a) else s1)"

definition reg_70 :: "i960 \<Rightarrow> u32 \<Rightarrow> u32 \<Rightarrow> u32 \<Rightarrow> nat \<Rightarrow> i960" where
  "reg_70 s op a b c =
     (let F3 = u32_bit_select op (7 + 3)
      in if F3 \<noteq> 0 then reg_divo s op a b c else reg_mulo s op a b c)"

text \<open>
  \<^verbatim>\<open>const int64_t r = (int64_t) a * (int64_t) b;\<close> where \<open>a\<close> and \<open>b\<close> are \<^verbatim>\<open>uint32_t\<close>: the
  conversion of an unsigned 32-bit value to \<^verbatim>\<open>int64_t\<close> keeps its value, it does not
  sign-extend. The product is taken in 64 bits and read as signed.
\<close>

definition reg_muli :: "i960 \<Rightarrow> u32 \<Rightarrow> u32 \<Rightarrow> u32 \<Rightarrow> nat \<Rightarrow> i960" where
  "reg_muli s op a b c =
     (let res = (ucast a :: u64) * ucast b;
          s1 = set_r s c (ucast res)
      in if sint res < - (2 ^ 31) \<or> sint res > 2 ^ 31 - 1 then i960_on_overflow s1 else s1)"

text \<open>
  \<^verbatim>\<open>(int32_t) b % (int32_t) a\<close> and \<^verbatim>\<open>(int32_t) b / (int32_t) a\<close> truncate towards zero
  (\<open>smod\<close>, \<open>sdiv\<close> on the signed values); the result is stored in 32 bits.
\<close>

definition reg_remi :: "i960 \<Rightarrow> u32 \<Rightarrow> u32 \<Rightarrow> u32 \<Rightarrow> nat \<Rightarrow> i960" where
  "reg_remi s op a b c =
     (let F0 = u32_bit_select op (7 + 0);
          (s1, ok) = i960_div_check s a
      in if \<not> ok then s1
         else
           (let s2 = set_r s1 c (word_of_int (sint b smod sint a))
            in if F0 \<noteq> 0 \<and> r s2 c \<noteq> 0 \<and> sint (a XOR b) < 0
               then set_r s2 c (r s2 c + a) else s2))"

definition reg_divi :: "i960 \<Rightarrow> u32 \<Rightarrow> u32 \<Rightarrow> u32 \<Rightarrow> nat \<Rightarrow> i960" where
  "reg_divi s op a b c =
     (let (s1, ok) = i960_div_check s a
      in if \<not> ok then s1
         else
           (let s2 = set_r s1 c (word_of_int (sint b sdiv sint a))
            in if sint (a XOR b XOR r s2 c) < 0 then i960_on_overflow s2 else s2))"

definition reg_74 :: "i960 \<Rightarrow> u32 \<Rightarrow> u32 \<Rightarrow> u32 \<Rightarrow> nat \<Rightarrow> i960" where
  "reg_74 s op a b c =
     (let F1 = u32_bit_select op (7 + 1);
          F3 = u32_bit_select op (7 + 3)
      in if F3 = 0 then reg_muli s op a b c
         else if F1 \<noteq> 0 then reg_divi s op a b c
         else reg_remi s op a b c)"

definition reg_muldiv :: "i960 \<Rightarrow> u32 \<Rightarrow> u32 \<Rightarrow> u32 \<Rightarrow> nat \<Rightarrow> i960" where
  "reg_muldiv s op a b c =
     (let C2 = u32_bit_select op (24 + 2)
      in if C2 \<noteq> 0 then reg_74 s op a b c else reg_70 s op a b c)"

section \<open>MEM format operations (i960-mem-op.c)\<close>

definition mem_funcs :: "i960 \<Rightarrow> u32 \<Rightarrow> u32 \<Rightarrow> nat \<Rightarrow> i960" where
  "mem_funcs s op efa c =
     (let C3 = u32_bit_select op (24 + 3);
          i = u32_extract op (24 + 0) 2
      in if C3 \<noteq> 0 then set_r s c efa
         else if i = 0 then i960_b s efa
         else if i = 1 then i960_bal s efa c
         else i960_call s efa)"

definition mem_ldb :: "i960 \<Rightarrow> u32 \<Rightarrow> u32 \<Rightarrow> nat \<Rightarrow> i960" where
  "mem_ldb s op efa c =
     (let C6 = u32_bit_select op (24 + 6);
          x = i960_read_b s efa
      in set_r s c (if C6 \<noteq> 0 then scast x else ucast x))"

definition mem_lds :: "i960 \<Rightarrow> u32 \<Rightarrow> u32 \<Rightarrow> nat \<Rightarrow> i960" where
  "mem_lds s op efa c =
     (let C6 = u32_bit_select op (24 + 6);
          x = i960_read_s s efa
      in set_r s c (if C6 \<noteq> 0 then scast x else ucast x))"

definition mem_ld :: "i960 \<Rightarrow> u32 \<Rightarrow> u32 \<Rightarrow> nat \<Rightarrow> i960" where
  "mem_ld s op efa c = set_r s c (i960_read_w s efa)"

definition mem_ldl :: "i960 \<Rightarrow> u32 \<Rightarrow> u32 \<Rightarrow> nat \<Rightarrow> i960" where
  "mem_ldl s op efa c =
     (let s1 = set_r s (c OR 0) (i960_read_w s (efa + 0))
      in set_r s1 (c OR 1) (i960_read_w s1 (efa + 4)))"

definition mem_ldt :: "i960 \<Rightarrow> u32 \<Rightarrow> u32 \<Rightarrow> nat \<Rightarrow> i960" where
  "mem_ldt s op efa c =
     (let s1 = set_r s (c OR 0) (i960_read_w s (efa + 0));
          s2 = set_r s1 (c OR 1) (i960_read_w s1 (efa + 4))
      in set_r s2 (c OR 2) (i960_read_w s2 (efa + 8)))"

definition mem_ldq :: "i960 \<Rightarrow> u32 \<Rightarrow> u32 \<Rightarrow> nat \<Rightarrow> i960" where
  "mem_ldq s op efa c =
     (let s1 = set_r s (c OR 0) (i960_read_w s (efa + 0));
          s2 = set_r s1 (c OR 1) (i960_read_w s1 (efa + 4));
          s3 = set_r s2 (c OR 2) (i960_read_w s2 (efa + 8))
      in set_r s3 (c OR 3) (i960_read_w s3 (efa + 12)))"

definition mem_load :: "i960 \<Rightarrow> u32 \<Rightarrow> u32 \<Rightarrow> nat \<Rightarrow> i960" where
  "mem_load s op efa c =
     (let i = u32_extract op (24 + 3) 3
      in if i = 0 then mem_ldb s op efa c
         else if i = 1 then mem_lds s op efa c
         else if i = 2 then mem_ld s op efa c
         else if i = 3 then mem_ldl s op efa c
         else if i = 4 \<or> i = 5 then mem_ldt s op efa c
         else mem_ldq s op efa c)"

text \<open>\<^verbatim>\<open>const int32_t x = o->r[c]; ... if (C6 && x != (int8_t) x) i960_on_overflow (o);\<close>\<close>

definition mem_stb :: "i960 \<Rightarrow> u32 \<Rightarrow> u32 \<Rightarrow> nat \<Rightarrow> i960" where
  "mem_stb s op efa c =
     (let C6 = u32_bit_select op (24 + 6);
          x = r s c;
          s1 = i960_write_b s efa x
      in if C6 \<noteq> 0 \<and> x \<noteq> scast (ucast x :: 8 word) then i960_on_overflow s1 else s1)"

definition mem_sts :: "i960 \<Rightarrow> u32 \<Rightarrow> u32 \<Rightarrow> nat \<Rightarrow> i960" where
  "mem_sts s op efa c =
     (let C6 = u32_bit_select op (24 + 6);
          x = r s c;
          s1 = i960_write_s s efa x
      in if C6 \<noteq> 0 \<and> x \<noteq> scast (ucast x :: 16 word) then i960_on_overflow s1 else s1)"

definition mem_st :: "i960 \<Rightarrow> u32 \<Rightarrow> u32 \<Rightarrow> nat \<Rightarrow> i960" where
  "mem_st s op efa c = i960_write_w s efa (r s c)"

definition mem_stl :: "i960 \<Rightarrow> u32 \<Rightarrow> u32 \<Rightarrow> nat \<Rightarrow> i960" where
  "mem_stl s op efa c =
     (let s1 = i960_write_w s (efa + 0) (r s (c OR 0))
      in i960_write_w s1 (efa + 4) (r s1 (c OR 1)))"

definition mem_stt :: "i960 \<Rightarrow> u32 \<Rightarrow> u32 \<Rightarrow> nat \<Rightarrow> i960" where
  "mem_stt s op efa c =
     (let s1 = i960_write_w s (efa + 0) (r s (c OR 0));
          s2 = i960_write_w s1 (efa + 4) (r s1 (c OR 1))
      in i960_write_w s2 (efa + 8) (r s2 (c OR 2)))"

definition mem_stq :: "i960 \<Rightarrow> u32 \<Rightarrow> u32 \<Rightarrow> nat \<Rightarrow> i960" where
  "mem_stq s op efa c =
     (let s1 = i960_write_w s (efa + 0) (r s (c OR 0));
          s2 = i960_write_w s1 (efa + 4) (r s1 (c OR 1));
          s3 = i960_write_w s2 (efa + 8) (r s2 (c OR 2))
      in i960_write_w s3 (efa + 12) (r s3 (c OR 3)))"

definition mem_store :: "i960 \<Rightarrow> u32 \<Rightarrow> u32 \<Rightarrow> nat \<Rightarrow> i960" where
  "mem_store s op efa c =
     (let i = u32_extract op (24 + 3) 3
      in if i = 0 then mem_stb s op efa c
         else if i = 1 then mem_sts s op efa c
         else if i = 2 then mem_st s op efa c
         else if i = 3 then mem_stl s op efa c
         else if i = 4 \<or> i = 5 then mem_stt s op efa c
         else mem_stq s op efa c)"

definition mem_op :: "i960 \<Rightarrow> u32 \<Rightarrow> u32 \<Rightarrow> nat \<Rightarrow> i960" where
  "mem_op s op efa c =
     (let C1 = u32_bit_select op (24 + 1);
          C2 = u32_bit_select op (24 + 2)
      in if C2 \<noteq> 0 then mem_funcs s op efa c
         else if C1 \<noteq> 0 then mem_store s op efa c
         else mem_load s op efa c)"

section \<open>Concrete states for evaluation\<close>

text \<open>All registers, control words and memory bytes zero, no fault posted.\<close>

definition reset_state :: i960 where
  "reset_state =
     \<lparr>r = (\<lambda>_. 0), ip = 0, ac = 0, pc = 0, tc = 0, mem = (\<lambda>_. 0), faults = []\<rparr>"

text \<open>
  The call scenario of the specification: SP = 0x1040, FP = 0x1000, the instruction after
  the call at 0x104; r7 holds 0x77.
\<close>

definition call_state :: i960 where
  "call_state =
     reset_state\<lparr>r := (r reset_state)(1 := 0x1040, 7 := 0x77, 31 := 0x1000), ip := 0x104\<rparr>"

text \<open>
  A state for the multi-word transfers: r4 .. r7 = 0x44, 0x55, 0x66, 0x77, r9 = 0x99 and the
  words 0x11, 0x22, 0x33, 0x44 at 0x100 .. 0x10C. The second state differs in r9 only.
\<close>

definition xfer_state :: i960 where
  "xfer_state =
     reset_state\<lparr>r := (r reset_state)(4 := 0x44, 5 := 0x55, 6 := 0x66, 7 := 0x77, 9 := 0x99),
       mem := (mem reset_state)(0x100 := 0x11, 0x104 := 0x22, 0x108 := 0x33, 0x10C := 0x44)\<rparr>"

definition xfer_state' :: i960 where
  "xfer_state' =
     reset_state\<lparr>r := (r reset_state)(4 := 0x44, 5 := 0x55, 6 := 0x66, 7 := 0x77, 9 := 0x9A),
       mem := (mem reset_state)(0x100 := 0x11, 0x104 := 0x22, 0x108 := 0x33, 0x10C := 0x44)\<rparr>"

section \<open>Condition predicate\<close>

lemmas i960_consts =
  I960_PFP_def I960_SP_def I960_RIP_def I960_LP_def I960_FP_def
  I960_CC_MASK_def I960_OF_POS_def I960_OM_POS_def

text \<open>With the logical conjunction, every non-zero \<open>cc\<close> passes as soon as AC is non-zero.\<close>

lemma check_cond_nonzero:
  "ac s \<noteq> 0 \<Longrightarrow> u32_extract op 24 3 \<noteq> 0 \<Longrightarrow> i960_check_cond s op"
  by (simp add: i960_check_cond_def)

text \<open>
  C1. The specification reads \<^verbatim>\<open>i960_check_cond\<close> as \<open>(cc & ac_cc) != 0\<close> for \<open>cc != 0\<close>. The code
  evaluates \<^verbatim>\<open>(o->ac && cc) != 0\<close>, a logical conjunction: after a compare that reported
  "equal" (AC = 2), the opcode of \<^verbatim>\<open>bg\<close> (0x11, \<open>cc = 1\<close>) passes the check although
  \<open>cc & ac_cc = 0\<close>.
\<close>

theorem check_cond_bg_after_equal:
  "i960_check_cond (reset_state\<lparr>ac := 2\<rparr>) 0x11000000 \<and>
   u32_extract 0x11000000 24 3 = 1 \<and>
   (1 :: u32) AND (ac (reset_state\<lparr>ac := 2\<rparr>) AND 7) = 0"
  by code_simp

section \<open>Condition code field\<close>




























section \<open>Call and return\<close>

lemma stx_loop_cpu:
  "r (i960_stx_loop i s efa c) = r s \<and> ip (i960_stx_loop i s efa c) = ip s"
proof (induction i s efa c rule: i960_stx_loop.induct)
  case (1 i s efa c)
  show ?case
  proof (cases "i < 16")
    case True
    with 1 show ?thesis
      by (subst (1 2) i960_stx_loop.simps) (simp add: i960_write_w_def)
  next
    case False
    then show ?thesis
      by (simp add: i960_stx_loop.simps)
  qed
qed

lemma ldx_loop_ip: "ip (i960_ldx_loop i s efa c) = ip s"
proof (induction i s efa c rule: i960_ldx_loop.induct)
  case (1 i s efa c)
  show ?case
  proof (cases "i < 16")
    case True
    with 1 show ?thesis
      by (subst i960_ldx_loop.simps) simp
  next
    case False
    then show ?thesis
      by (simp add: i960_ldx_loop.simps)
  qed
qed

text \<open>The reload loop writes \<open>r[c + i]\<close> upwards only: a register below \<open>c + i\<close> keeps its value.\<close>

lemma ldx_loop_below: "j < c + i \<Longrightarrow> r (i960_ldx_loop i s efa c) j = r s j"
proof (induction i s efa c rule: i960_ldx_loop.induct)
  case (1 i s efa c)
  show ?case
  proof (cases "i < 16")
    case True
    with 1 show ?thesis
      by (subst i960_ldx_loop.simps) simp
  next
    case False
    then show ?thesis
      by (simp add: i960_ldx_loop.simps)
  qed
qed

lemma call_ret_low:
  assumes "j < 16"
  shows "r (i960_ret (i960_call s efa)) j =
     (if j = 0 then r s 31
      else if j = 1 then ((r s 1 + 63) AND NOT 63) + 64
      else if j = 2 then ip s
      else r s j)"
  using assms
  by (simp add: i960_ret_def i960_call_def Let_def i960_b_def i960_ldx_def i960_stx_def
      ldx_loop_below stx_loop_cpu i960_consts)

lemma call_ret_ip: "ip (i960_ret (i960_call s efa)) = ip s"
  by (simp add: i960_ret_def i960_call_def Let_def i960_b_def i960_ldx_def i960_stx_def
      ldx_loop_below stx_loop_cpu i960_consts)

text \<open>
  C3. The specification says that \<^verbatim>\<open>call\<close> followed immediately by \<^verbatim>\<open>ret\<close> restores r0..r15. The
  code passes register base 16 and address stride 1 to \<^verbatim>\<open>i960_stx\<close> and \<^verbatim>\<open>i960_ldx\<close>, so the
  local registers r0..r15 are neither saved nor reloaded. In \<open>call_state\<close> (SP = 0x1040,
  FP = 0x1000, ip = 0x104, r0 = 0), after \<^verbatim>\<open>i960_call\<close> and \<^verbatim>\<open>i960_ret\<close> r0 (PFP) still holds the
  frame pointer 0x1000 written by the call and r1 (SP) the new stack pointer 0x1080, instead
  of 0 and 0x1040; \<open>ip\<close> is back at 0x104.
\<close>

theorem call_ret_changes_locals:
  "r (i960_ret (i960_call call_state 0x200)) 0 = 0x1000 \<and> r call_state 0 = 0 \<and>
   r (i960_ret (i960_call call_state 0x200)) 1 = 0x1080 \<and> r call_state 1 = 0x1040 \<and>
   r (i960_ret (i960_call call_state 0x200)) 0 \<noteq> r call_state 0 \<and>
   r (i960_ret (i960_call call_state 0x200)) 1 \<noteq> r call_state 1 \<and>
   r call_state I960_FP AND 63 = 0 \<and>
   ip (i960_ret (i960_call call_state 0x200)) = 0x104"
  by (simp add: call_ret_low call_ret_ip call_state_def reset_state_def I960_FP_def)

section \<open>Division by zero\<close>

text \<open>
  C4 does not hold as the specification states it, for \<^verbatim>\<open>ediv\<close> (opcode 0x671): with a zero divisor \<^verbatim>\<open>reg_ediv\<close> posts the
  fault and still assigns both destination registers. \<^verbatim>\<open>ediv r3, r6, r4\<close> with the divisor
  r3 = 0, the dividend r6 = 5 and r4 = 7 leaves 5 in r4.
\<close>

theorem ediv_by_zero_writes:
  "r (reg_ediv (reset_state\<lparr>r := (r reset_state)(4 := 7, 6 := 5)\<rparr>) 0x67218083 0 5 4) 4 = 5 \<and>
   r (reset_state\<lparr>r := (r reset_state)(4 := 7, 6 := 5)\<rparr>) 4 = 7 \<and>
   r (reg_ediv (reset_state\<lparr>r := (r reset_state)(4 := 7, 6 := 5)\<rparr>) 0x67218083 0 5 4) 4
     \<noteq> r (reset_state\<lparr>r := (r reset_state)(4 := 7, 6 := 5)\<rparr>) 4 \<and>
   faults (reg_ediv (reset_state\<lparr>r := (r reset_state)(4 := 7, 6 := 5)\<rparr>) 0x67218083 0 5 4)
     = [0x30002]"
  by code_simp

text \<open>
  C4, as the code has it. With a zero divisor, \<^verbatim>\<open>divo\<close> and \<^verbatim>\<open>remo\<close> (\<^verbatim>\<open>reg_divo\<close>), \<^verbatim>\<open>remi\<close> and \<^verbatim>\<open>modi\<close>
  (\<^verbatim>\<open>reg_remi\<close>) and \<^verbatim>\<open>divi\<close> (\<^verbatim>\<open>reg_divi\<close>) post the division-by-zero fault 0x00030002 and
  change nothing else: every register is unmodified. \<^verbatim>\<open>ediv\<close> (\<^verbatim>\<open>reg_ediv\<close>) posts the same
  fault and writes its destination pair: the low dividend word \<open>b\<close> to \<open>r[c | 0]\<close>, then 0 to
  \<open>r[c | 1]\<close>.
\<close>

theorem div_by_zero:
  "reg_divo s op 0 b c = s\<lparr>faults := faults s @ [0x30002]\<rparr> \<and>
   reg_remi s op 0 b c = s\<lparr>faults := faults s @ [0x30002]\<rparr> \<and>
   reg_divi s op 0 b c = s\<lparr>faults := faults s @ [0x30002]\<rparr> \<and>
   reg_ediv s op 0 b c =
     s\<lparr>r := (r s)(c OR 0 := b, c OR 1 := 0), faults := faults s @ [0x30002]\<rparr>"
  by (simp add: reg_divo_def reg_remi_def reg_divi_def reg_ediv_def i960_div_check_def
      i960_fault_def Let_def)

section \<open>Integer overflow policy\<close>

lemma u32_bit_select_bit: "u32_bit_select x pos \<noteq> 0 \<longleftrightarrow> bit x (unat (pos AND 31))"
  by (simp add: u32_bit_select_def bit_iff_odd_drop_bit and_one_eq mod_2_eq_odd)

text \<open>
  C5. When an integer overflow is signalled (\<^verbatim>\<open>i960_on_overflow\<close>): if bit 12 of AC (the
  overflow mask) is set, the only change to the state is that bit 8 of AC (the overflow
  flag) is set, and no fault is posted; if bit 12 is clear, the only change is that fault
  0x00030001 is posted, and AC is left as it was, so the flag is not set by the operation.
\<close>

theorem on_overflow_policy:
  "(bit (ac s) 12 \<longrightarrow>
      i960_on_overflow s = s\<lparr>ac := ac s OR 0x100\<rparr> \<and>
      bit (ac (i960_on_overflow s)) 8 \<and>
      faults (i960_on_overflow s) = faults s) \<and>
   (\<not> bit (ac s) 12 \<longrightarrow>
      i960_on_overflow s = s\<lparr>faults := faults s @ [0x30001]\<rparr> \<and>
      ac (i960_on_overflow s) = ac s)"
  by (simp add: i960_on_overflow_def u32_bit_select_bit u32_bit_mask_def i960_fault_def
      i960_consts bit_or_iff)

theorem on_overflow_policy_witness:
  "bit (ac (reset_state\<lparr>ac := 0x1000\<rparr>)) 12 \<and>
   i960_on_overflow (reset_state\<lparr>ac := 0x1000\<rparr>) = reset_state\<lparr>ac := 0x1100\<rparr> \<and>
   \<not> bit (ac (reset_state\<lparr>ac := 0x0100\<rparr>)) 12 \<and>
   i960_on_overflow (reset_state\<lparr>ac := 0x0100\<rparr>)
     = reset_state\<lparr>ac := 0x0100, faults := [0x30001]\<rparr>"
  using on_overflow_policy [of "reset_state\<lparr>ac := 0x1000\<rparr>"]
    on_overflow_policy [of "reset_state\<lparr>ac := 0x0100\<rparr>"]
  by (simp add: reset_state_def)

section \<open>Bit test and branch\<close>

text \<open>
  \<^verbatim>\<open>cobr_op\<close> compares the whole instruction word with 0x30 and 0x37. A word with bit 28 set
  is neither, so the branch to \<^verbatim>\<open>cobr_bb\<close> is never taken.
\<close>

lemma cobr_op_never_bb:
  "u32_bit_select op 28 \<noteq> 0 \<Longrightarrow> cobr_op s op a b disp = cobr_cmpbcc s op a b disp"
  by (auto simp add: cobr_op_def Let_def u32_bit_select_def)

text \<open>
  C6. The specification says that \<^verbatim>\<open>bbs\<close> and \<^verbatim>\<open>bbc\<close> set the condition code to 2 and branch when
  the selected bit matches. The code runs the compare-and-branch operation instead.
  \<^verbatim>\<open>bbs r3, r4, -0x10\<close> (word 0x37191FF0) with r3 = 5, r4 = 0x20, ip = 0x1000: bit 5 of r4 is 1,
  the branch is taken, but the condition code is 4. \<^verbatim>\<open>bbc r3, r4, +0x10\<close> (word 0x30190010)
  with r3 = 1, r4 = 0: bit 1 of r4 is 0, yet the condition code is 1 and no branch is taken.
\<close>

theorem cobr_bbs_runs_cmpbcc:
  "u32_bit_select 0x20 5 = 1 \<and>
   ac (i960_cobr (reset_state\<lparr>r := (r reset_state)(3 := 5, 4 := 0x20), ip := 0x1000\<rparr>)
         0x37191FF0 0) = 4 \<and>
   ip (i960_cobr (reset_state\<lparr>r := (r reset_state)(3 := 5, 4 := 0x20), ip := 0x1000\<rparr>)
         0x37191FF0 0) = 0xFF0 \<and>
   u32_bit_select 0 1 = 0 \<and>
   ac (i960_cobr (reset_state\<lparr>r := (r reset_state)(3 := 1, 4 := 0), ip := 0x1000\<rparr>)
         0x30190010 0) = 1 \<and>
   ip (i960_cobr (reset_state\<lparr>r := (r reset_state)(3 := 1, 4 := 0), ip := 0x1000\<rparr>)
         0x30190010 0) = 0x1000"
  by code_simp

section \<open>Rounded arithmetic shift\<close>

lemma push_signed_drop:
  "n < 32 \<Longrightarrow> push_bit n (signed_drop_bit n (b :: u32)) = b AND NOT (mask n)"
  by (rule bit_word_eqI)
    (auto simp add: bit_push_bit_iff bit_signed_drop_bit_iff bit_and_iff bit_not_iff bit_mask_iff)

text \<open>
  Shifting the quotient back clears the low bits of \<open>b\<close>, so it is never above \<open>b\<close> as an
  unsigned value: the increment of \<^verbatim>\<open>reg_shrdi\<close> never fires and \<^verbatim>\<open>shrdi\<close> equals \<^verbatim>\<open>shri\<close>.
\<close>

lemma shrdi_never_rounds: "reg_shrdi s op a b c = reg_shri s op a b c"
proof -
  have n: "unat (if a < 32 then a else 31) < 32"
    by (auto simp add: word_less_nat_alt)
  have "\<not> b < b AND NOT (mask (unat (if a < 32 then a else 31)))"
    using word_and_le2 [of b] by (simp add: not_less)
  then show ?thesis
    using n by (simp add: reg_shrdi_def reg_shri_def Let_def push_signed_drop)
qed

text \<open>
  C7. The specification says that \<^verbatim>\<open>shrdi\<close> rounds the signed quotient towards zero. The code's
  test \<^verbatim>\<open>b < (o->r[c] << n)\<close> is unsigned and never holds: \<^verbatim>\<open>shrdi 1, r5, r4\<close> (opcode 0x59A)
  with r5 = -1 yields -1, where \<open>-1 / 2\<close> rounded towards zero is 0.
\<close>

theorem shrdi_minus_one:
  "r (reg_shrdi (reset_state\<lparr>r := (r reset_state)(5 := 0xFFFFFFFF)\<rparr>)
        0x59214D01 1 0xFFFFFFFF 4) 4 = 0xFFFFFFFF \<and>
   sint (0xFFFFFFFF :: u32) = - 1 \<and> (- 1 :: int) sdiv 2 ^ 1 = 0"
  by code_simp

section \<open>Byte scan\<close>

text \<open>
  C8. The specification says that \<^verbatim>\<open>scanbyte\<close> sets the condition code to 2 only if some byte of
  \<open>a\<close> equals the byte of \<open>b\<close> at the same position. The code tests whether the bitwise
  conjunction of the four bytes of \<open>a ^ b\<close> is zero: for \<^verbatim>\<open>scanbyte r4, r5\<close> with
  r4 = 0x01020408 and r5 = 0 no byte is equal, and the condition code is 2.
\<close>

theorem scanbyte_no_equal_byte:
  "ac (reg_scanbyte (reset_state\<lparr>r := (r reset_state)(4 := 0x01020408)\<rparr>)
         0x5A014604 0x01020408 0 0) AND 7 = 2 \<and>
   (0x01020408 :: u32) AND 0x000000ff \<noteq> 0 AND 0x000000ff \<and>
   (0x01020408 :: u32) AND 0x0000ff00 \<noteq> 0 AND 0x0000ff00 \<and>
   (0x01020408 :: u32) AND 0x00ff0000 \<noteq> 0 AND 0x00ff0000 \<and>
   (0x01020408 :: u32) AND 0xff000000 \<noteq> 0 AND 0xff000000"
  by code_simp

section \<open>Integer multiply and divide\<close>

text \<open>
  C9. The specification says that \<^verbatim>\<open>muli\<close> signals overflow only if the signed product does not
  fit in 32 bits, and \<^verbatim>\<open>divi\<close> only for \<open>INT32_MIN / -1\<close>. \<^verbatim>\<open>muli r4, r5, r6\<close> (opcode 0x741)
  with r4 = -1 and r5 = 1, overflow mask clear, posts the integer-overflow fault although
  the product is -1; \<^verbatim>\<open>divi r4, r5, r6\<close> (opcode 0x74B) with r4 = -2 and r5 = 1 posts it
  although the quotient is 0.
\<close>

theorem muli_divi_false_overflow:
  "faults (reg_muldiv (reset_state\<lparr>r := (r reset_state)(4 := 0xFFFFFFFF, 5 := 1)\<rparr>)
             0x74314084 0xFFFFFFFF 1 6) = [0x30001] \<and>
   sint (0xFFFFFFFF :: u32) * sint (1 :: u32) = - 1 \<and>
   faults (reg_muldiv (reset_state\<lparr>r := (r reset_state)(4 := 0xFFFFFFFE, 5 := 1)\<rparr>)
             0x74314584 0xFFFFFFFE 1 6) = [0x30001] \<and>
   r (reg_muldiv (reset_state\<lparr>r := (r reset_state)(4 := 0xFFFFFFFE, 5 := 1)\<rparr>)
        0x74314584 0xFFFFFFFE 1 6) 6 = 0 \<and>
   sint (0xFFFFFFFE :: u32) = - 2 \<and> sint (1 :: u32) = 1"
  by code_simp

section \<open>Multi-word register transfers\<close>

lemma or_div_nat:
  fixes c k :: nat
  assumes "k < 2 ^ n"
  shows "(c OR k) div 2 ^ n = c div 2 ^ n"
proof -
  have "drop_bit n k = 0"
    using assms by (simp add: drop_bit_eq_div)
  then have "drop_bit n (c OR k) = drop_bit n c"
    by (simp add: drop_bit_or)
  then show ?thesis
    by (simp only: drop_bit_eq_div)
qed

lemma or_pair: "(c OR 1) div 2 = c div (2 :: nat)"
  using or_div_nat [of 1 1 c] by simp

lemma or_quad:
  "(c OR 1) div 4 = c div (4 :: nat)"
  "(c OR 2) div 4 = c div (4 :: nat)"
  "(c OR 3) div 4 = c div (4 :: nat)"
  using or_div_nat [of 1 2 c] or_div_nat [of 2 2 c] or_div_nat [of 3 2 c] by simp_all

lemma or_odd: "odd (c :: nat) \<Longrightarrow> c OR 1 = c"
  using or_one_eq [of c] by simp

lemma read_w_regs: "i960_read_w (s\<lparr>r := f\<rparr>) addr = i960_read_w s addr"
  by (simp add: i960_read_w_def)

lemma outside_pair:
  assumes "j div 2 \<noteq> c div 2"
  shows "r (mem_ldl s op efa c) j = r s j"
    and "u32_extract opm 24 2 = 1 \<Longrightarrow> r (reg_move s opm a b c) j = r s j"
proof -
  have ne: "j \<noteq> c" "j \<noteq> (c OR 1)"
    using assms or_pair [of c] by auto
  then show "r (mem_ldl s op efa c) j = r s j"
    by (simp add: mem_ldl_def Let_def)
  show "r (reg_move s opm a b c) j = r s j" if "u32_extract opm 24 2 = 1"
    using ne that by (simp add: reg_move_def Let_def)
qed

lemma outside_quad:
  assumes "j div 4 \<noteq> c div 4"
  shows "r (mem_ldt s op efa c) j = r s j"
    and "r (mem_ldq s op efa c) j = r s j"
    and "r (reg_move s opm a b c) j = r s j"
proof -
  have ne: "j \<noteq> c" "j \<noteq> (c OR 1)" "j \<noteq> (c OR 2)" "j \<noteq> (c OR 3)"
    using assms or_quad [of c] by auto
  then show "r (mem_ldt s op efa c) j = r s j" "r (mem_ldq s op efa c) j = r s j"
    by (simp_all add: mem_ldt_def mem_ldq_def Let_def)
  show "r (reg_move s opm a b c) j = r s j"
    using ne by (simp add: reg_move_def Let_def)
qed

lemma stores_from_group:
  assumes "mem s = mem s'"
  shows "(\<forall>k. k div 2 = c div 2 \<longrightarrow> r s k = r s' k) \<Longrightarrow>
            mem (mem_stl s op efa c) = mem (mem_stl s' op efa c)"
    and "(\<forall>k. k div 4 = c div 4 \<longrightarrow> r s k = r s' k) \<Longrightarrow>
            mem (mem_stt s op efa c) = mem (mem_stt s' op efa c)"
    and "(\<forall>k. k div 4 = c div 4 \<longrightarrow> r s k = r s' k) \<Longrightarrow>
            mem (mem_stq s op efa c) = mem (mem_stq s' op efa c)"
  using assms or_pair [of c] or_quad [of c]
  by (simp_all add: mem_stl_def mem_stt_def mem_stq_def Let_def i960_write_w_def)

lemma collapse:
  assumes "odd c"
  shows "mem_ldl s op efa c = set_r s c (i960_read_w s (efa + 4))"
    and "mem_stl s op efa c = i960_write_w (i960_write_w s efa (r s c)) (efa + 4) (r s c)"
    and "u32_extract opm 24 2 = 1 \<Longrightarrow> reg_move s opm a b c = set_r s c a"
  using or_odd [OF assms]
  by (simp_all add: mem_ldl_def mem_stl_def reg_move_def Let_def i960_write_w_def read_w_regs)

lemma last_word:
  "r (mem_ldl s op efa c) (c OR 1) = i960_read_w s (efa + 4)"
  "r (mem_ldt s op efa c) (c OR 2) = i960_read_w s (efa + 8)"
  "r (mem_ldq s op efa c) (c OR 3) = i960_read_w s (efa + 12)"
  by (simp_all add: mem_ldl_def mem_ldt_def mem_ldq_def Let_def read_w_regs)

lemma bit_two_nat: "bit (2 :: nat) n \<longleftrightarrow> n = 1"
  using bit_exp_iff [where ?'a = nat, of 1 n] by simp

lemma or_two: "bit c 1 \<Longrightarrow> c OR 2 = (c :: nat)"
  by (rule bit_eqI) (auto simp add: bit_or_iff bit_two_nat)

lemma unaligned_bits:
  fixes c :: nat
  assumes "c mod 4 \<noteq> 0"
  shows "c OR 1 = c \<or> c OR 2 = c"
proof (cases "odd c")
  case True
  then show ?thesis
    using or_odd [of c] by simp
next
  case False
  with assms have "odd (c div 2)"
    by presburger
  then have "bit c 1"
    by (simp add: bit_iff_odd_drop_bit drop_bit_eq_div)
  then show ?thesis
    by (simp add: or_two)
qed

lemma unaligned_quad:
  assumes "c mod 4 \<noteq> 0"
  shows "r (mem_ldt s op efa c) c \<in> {i960_read_w s (efa + 4), i960_read_w s (efa + 8)}"
    and "r (mem_ldq s op efa c) c
          \<in> {i960_read_w s (efa + 4), i960_read_w s (efa + 8), i960_read_w s (efa + 12)}"
  using unaligned_bits [OF assms]
  by (auto simp add: mem_ldt_def mem_ldq_def Let_def read_w_regs)

lemma word_bytes:
  "ucast (ucast x :: 8 word) OR push_bit 8 (ucast (ucast (drop_bit 8 x) :: 8 word)) OR
   push_bit 16 (ucast (ucast (drop_bit 16 x) :: 8 word)) OR
   push_bit 24 (ucast (ucast (drop_bit 24 x) :: 8 word)) = (x :: u32)"
proof (rule bit_word_eqI)
  fix n :: nat
  assume "n < LENGTH(32)"
  then have n: "n < 32"
    by simp
  consider "n < 8" | "8 \<le> n" "n < 16" | "16 \<le> n" "n < 24" | "24 \<le> n"
    by linarith
  then show "bit (ucast (ucast x :: 8 word) OR push_bit 8 (ucast (ucast (drop_bit 8 x) :: 8 word)) OR
      push_bit 16 (ucast (ucast (drop_bit 16 x) :: 8 word)) OR
      push_bit 24 (ucast (ucast (drop_bit 24 x) :: 8 word)) :: u32) n = bit x n"
    using n
    by cases (auto simp add: bit_or_iff bit_push_bit_iff bit_ucast_iff bit_drop_bit_eq)
qed

lemma write_w_regs: "r (i960_write_w s a x) = r s"
  by (simp add: i960_write_w_def)

lemma loads_eq:
  "mem_ldl s op efa c =
     s\<lparr>r := (r s)(c OR 0 := i960_read_w s efa, c OR 1 := i960_read_w s (efa + 4))\<rparr>"
  "mem_ldt s op efa c =
     s\<lparr>r := (r s)(c OR 0 := i960_read_w s efa, c OR 1 := i960_read_w s (efa + 4),
                    c OR 2 := i960_read_w s (efa + 8))\<rparr>"
  "mem_ldq s op efa c =
     s\<lparr>r := (r s)(c OR 0 := i960_read_w s efa, c OR 1 := i960_read_w s (efa + 4),
                    c OR 2 := i960_read_w s (efa + 8), c OR 3 := i960_read_w s (efa + 12))\<rparr>"
  by (simp_all add: mem_ldl_def mem_ldt_def mem_ldq_def Let_def read_w_regs)

lemma stores_eq:
  "mem_stl s op efa c =
     i960_write_w (i960_write_w s efa (r s (c OR 0))) (efa + 4) (r s (c OR 1))"
  "mem_stt s op efa c =
     i960_write_w (i960_write_w (i960_write_w s efa (r s (c OR 0))) (efa + 4) (r s (c OR 1)))
       (efa + 8) (r s (c OR 2))"
  "mem_stq s op efa c =
     i960_write_w (i960_write_w (i960_write_w (i960_write_w s efa (r s (c OR 0)))
       (efa + 4) (r s (c OR 1))) (efa + 8) (r s (c OR 2))) (efa + 12) (r s (c OR 3))"
  by (simp_all add: mem_stl_def mem_stt_def mem_stq_def Let_def write_w_regs)

lemma stl_readback:
  "i960_read_w (mem_stl s op efa c) efa = r s (c OR 0)"
  "i960_read_w (mem_stl s op efa c) (efa + 4) = r s (c OR 1)"
  using word_bytes [of "r s (c OR 0)"] word_bytes [of "r s (c OR 1)"]
  by (simp_all add: mem_stl_def Let_def i960_read_w_def i960_write_w_def)

lemma stt_readback:
  "i960_read_w (mem_stt s op efa c) efa = r s (c OR 0)"
  "i960_read_w (mem_stt s op efa c) (efa + 4) = r s (c OR 1)"
  "i960_read_w (mem_stt s op efa c) (efa + 8) = r s (c OR 2)"
  using word_bytes [of "r s (c OR 0)"] word_bytes [of "r s (c OR 1)"]
    word_bytes [of "r s (c OR 2)"]
  by (simp_all add: mem_stt_def Let_def i960_read_w_def i960_write_w_def)

lemma stq_readback:
  "i960_read_w (mem_stq s op efa c) efa = r s (c OR 0)"
  "i960_read_w (mem_stq s op efa c) (efa + 4) = r s (c OR 1)"
  "i960_read_w (mem_stq s op efa c) (efa + 8) = r s (c OR 2)"
  "i960_read_w (mem_stq s op efa c) (efa + 12) = r s (c OR 3)"
  using word_bytes [of "r s (c OR 0)"] word_bytes [of "r s (c OR 1)"]
    word_bytes [of "r s (c OR 2)"] word_bytes [of "r s (c OR 3)"]
  by (simp_all add: mem_stq_def Let_def i960_read_w_def i960_write_w_def)

lemma stores_regs:
  "r (mem_stl s op efa c) = r s" "r (mem_stt s op efa c) = r s" "r (mem_stq s op efa c) = r s"
  by (simp_all add: stores_eq write_w_regs)

lemma move_eq:
  "u32_extract opm 24 2 = 0 \<Longrightarrow> reg_move s opm a b c = set_r s (c OR 0) a"
  "u32_extract opm 24 2 = 1 \<Longrightarrow> reg_move s opm a b c =
     s\<lparr>r := (r s)(c OR 1 := r s (unat (u32_extract opm 0 5) OR 1), c OR 0 := a)\<rparr>"
  "u32_extract opm 24 2 = 2 \<Longrightarrow> reg_move s opm a b c =
     (let src = unat (u32_extract opm 0 5);
          f2 = (r s)(c OR 2 := r s (src OR 2));
          f1 = f2(c OR 1 := f2 (src OR 1))
      in s\<lparr>r := f1(c OR 0 := a)\<rparr>)"
  "u32_extract opm 24 2 = 3 \<Longrightarrow> reg_move s opm a b c =
     (let src = unat (u32_extract opm 0 5);
          f3 = (r s)(c OR 3 := r s (src OR 3));
          f2 = f3(c OR 2 := f3 (src OR 2));
          f1 = f2(c OR 1 := f2 (src OR 1))
      in s\<lparr>r := f1(c OR 0 := a)\<rparr>)"
  by (simp_all add: reg_move_def Let_def)

lemma move_disjoint:
  assumes "unat (u32_extract opm 0 5) div 4 \<noteq> c div 4"
  shows "u32_extract opm 24 2 = 2 \<Longrightarrow> reg_move s opm a b c =
     s\<lparr>r := (r s)(c OR 2 := r s (unat (u32_extract opm 0 5) OR 2),
                    c OR 1 := r s (unat (u32_extract opm 0 5) OR 1), c OR 0 := a)\<rparr>"
    and "u32_extract opm 24 2 = 3 \<Longrightarrow> reg_move s opm a b c =
     s\<lparr>r := (r s)(c OR 3 := r s (unat (u32_extract opm 0 5) OR 3),
                    c OR 2 := r s (unat (u32_extract opm 0 5) OR 2),
                    c OR 1 := r s (unat (u32_extract opm 0 5) OR 1), c OR 0 := a)\<rparr>"
proof -
  let ?src = "unat (u32_extract opm 0 5)"
  have ne: "?src OR 1 \<noteq> c OR 2" "?src OR 1 \<noteq> c OR 3" "?src OR 2 \<noteq> c OR 3"
    using assms or_quad [of c] or_quad [of ?src] by metis+
  show "u32_extract opm 24 2 = 2 \<Longrightarrow> reg_move s opm a b c =
     s\<lparr>r := (r s)(c OR 2 := r s (?src OR 2), c OR 1 := r s (?src OR 1), c OR 0 := a)\<rparr>"
    using ne by (simp add: move_eq Let_def)
  show "u32_extract opm 24 2 = 3 \<Longrightarrow> reg_move s opm a b c =
     s\<lparr>r := (r s)(c OR 3 := r s (?src OR 3), c OR 2 := r s (?src OR 2),
                    c OR 1 := r s (?src OR 1), c OR 0 := a)\<rparr>"
    using ne by (simp add: move_eq Let_def)
qed


lemma or_aligned:
  fixes c :: nat
  assumes "c mod 4 = 0"
  shows "c OR 1 = c + 1" "c OR 2 = c + 2" "c OR 3 = c + 3"
proof -
  define q where "q = c div 4"
  have c: "c = push_bit 1 (2 * q)"
    using assms by (simp add: q_def push_bit_eq_mult) presburger
  have ev: "even c" "even (c + 2)"
    using assms by presburger+
  show 1: "c OR 1 = c + 1"
    using ev(1) or_one_eq [of c] by simp
  have "c OR 2 = push_bit 1 (2 * q) OR push_bit 1 1"
    by (simp add: c)
  also have "\<dots> = push_bit 1 (2 * q OR 1)"
    by (simp only: push_bit_or)
  also have "2 * q OR 1 = 2 * q + 1"
    using or_one_eq [of "2 * q"] by simp
  also have "push_bit 1 (2 * q + 1) = c + 2"
    by (simp add: c push_bit_eq_mult)
  finally show 2: "c OR 2 = c + 2" .
  have "c OR 3 = (c OR 2) OR 1"
    by (simp add: or.assoc)
  also have "\<dots> = (c + 2) OR 1"
    by (simp only: 2)
  also have "\<dots> = c + 3"
    using ev(2) or_one_eq [of "c + 2"] by simp
  finally show "c OR 3 = c + 3" .
qed

lemma aligned_quad:
  assumes "c mod 4 = 0"
  shows "r (mem_ldq s op efa c) c = i960_read_w s efa"
    "r (mem_ldq s op efa c) (c + 1) = i960_read_w s (efa + 4)"
    "r (mem_ldq s op efa c) (c + 2) = i960_read_w s (efa + 8)"
    "r (mem_ldq s op efa c) (c + 3) = i960_read_w s (efa + 12)"
  using or_aligned [OF assms] by (simp_all add: loads_eq)

text \<open>
  C10. In the multi-word transfers the register of word \<open>i\<close> is \<open>r[c | i]\<close>. The loads write
  the word read at \<open>efa + 4 i\<close> to \<open>r[c | i]\<close>, in ascending order; the stores write \<open>r[c | i]\<close>
  to \<open>efa + 4 i\<close>, where it is read back; the moves write the operand \<open>a\<close> to \<open>r[c | 0]\<close> and
  \<open>r[src | i]\<close> to \<open>r[c | i]\<close> for the other words, in descending order, \<open>src\<close> being the
  source field of the opcode. Hence, for every base index \<open>c\<close>: a register outside the
  aligned pair of \<open>c\<close> (\<open>j div 2 \<noteq> c div 2\<close>) is not written by \<^verbatim>\<open>ldl\<close> or \<^verbatim>\<open>movl\<close>, and one
  outside the aligned group of four is not written by \<^verbatim>\<open>ldt\<close>, \<^verbatim>\<open>ldq\<close> or any move; what
  \<^verbatim>\<open>stl\<close>, \<^verbatim>\<open>stt\<close> and \<^verbatim>\<open>stq\<close> store depends only on the registers of that pair or group; the
  last fetched word always lands in \<open>r[c | n - 1]\<close>; for an odd \<open>c\<close> the two words collapse
  onto \<open>r[c]\<close>: \<^verbatim>\<open>ldl\<close> writes only \<open>r[c]\<close>, which ends up holding the second fetched word,
  \<^verbatim>\<open>stl\<close> stores \<open>r[c]\<close> twice, and \<^verbatim>\<open>movl\<close> writes only \<open>r[c]\<close>; for a \<open>c\<close> that is not a
  multiple of 4, \<^verbatim>\<open>ldt\<close> and \<^verbatim>\<open>ldq\<close> leave in \<open>r[c]\<close> a later word than the first; and for a
  \<open>c\<close> that is a multiple of 4, \<^verbatim>\<open>ldq\<close> fills \<open>r[c] .. r[c + 3]\<close> with the four words.
\<close>

theorem multiword_index_or:
  "(mem_ldl s op efa c =
      s\<lparr>r := (r s)(c OR 0 := i960_read_w s efa, c OR 1 := i960_read_w s (efa + 4))\<rparr> \<and>
    mem_ldt s op efa c =
      s\<lparr>r := (r s)(c OR 0 := i960_read_w s efa, c OR 1 := i960_read_w s (efa + 4),
                     c OR 2 := i960_read_w s (efa + 8))\<rparr> \<and>
    mem_ldq s op efa c =
      s\<lparr>r := (r s)(c OR 0 := i960_read_w s efa, c OR 1 := i960_read_w s (efa + 4),
                     c OR 2 := i960_read_w s (efa + 8), c OR 3 := i960_read_w s (efa + 12))\<rparr>) \<and>
   (mem_stl s op efa c =
      i960_write_w (i960_write_w s efa (r s (c OR 0))) (efa + 4) (r s (c OR 1)) \<and>
    mem_stt s op efa c =
      i960_write_w (i960_write_w (i960_write_w s efa (r s (c OR 0))) (efa + 4) (r s (c OR 1)))
        (efa + 8) (r s (c OR 2)) \<and>
    mem_stq s op efa c =
      i960_write_w (i960_write_w (i960_write_w (i960_write_w s efa (r s (c OR 0)))
        (efa + 4) (r s (c OR 1))) (efa + 8) (r s (c OR 2))) (efa + 12) (r s (c OR 3))) \<and>
   (i960_read_w (mem_stl s op efa c) efa = r s (c OR 0) \<and>
    i960_read_w (mem_stl s op efa c) (efa + 4) = r s (c OR 1) \<and>
    i960_read_w (mem_stt s op efa c) efa = r s (c OR 0) \<and>
    i960_read_w (mem_stt s op efa c) (efa + 4) = r s (c OR 1) \<and>
    i960_read_w (mem_stt s op efa c) (efa + 8) = r s (c OR 2) \<and>
    i960_read_w (mem_stq s op efa c) efa = r s (c OR 0) \<and>
    i960_read_w (mem_stq s op efa c) (efa + 4) = r s (c OR 1) \<and>
    i960_read_w (mem_stq s op efa c) (efa + 8) = r s (c OR 2) \<and>
    i960_read_w (mem_stq s op efa c) (efa + 12) = r s (c OR 3)) \<and>
   (u32_extract opm 24 2 = 0 \<longrightarrow> reg_move s opm a b c = set_r s (c OR 0) a) \<and>
   (u32_extract opm 24 2 = 1 \<longrightarrow> reg_move s opm a b c =
      s\<lparr>r := (r s)(c OR 1 := r s (unat (u32_extract opm 0 5) OR 1), c OR 0 := a)\<rparr>) \<and>
   (u32_extract opm 24 2 = 2 \<longrightarrow> reg_move s opm a b c =
      (let src = unat (u32_extract opm 0 5);
           f2 = (r s)(c OR 2 := r s (src OR 2));
           f1 = f2(c OR 1 := f2 (src OR 1))
       in s\<lparr>r := f1(c OR 0 := a)\<rparr>)) \<and>
   (u32_extract opm 24 2 = 3 \<longrightarrow> reg_move s opm a b c =
      (let src = unat (u32_extract opm 0 5);
           f3 = (r s)(c OR 3 := r s (src OR 3));
           f2 = f3(c OR 2 := f3 (src OR 2));
           f1 = f2(c OR 1 := f2 (src OR 1))
       in s\<lparr>r := f1(c OR 0 := a)\<rparr>)) \<and>
   (unat (u32_extract opm 0 5) div 4 \<noteq> c div 4 \<longrightarrow>
      (u32_extract opm 24 2 = 2 \<longrightarrow> reg_move s opm a b c =
         s\<lparr>r := (r s)(c OR 2 := r s (unat (u32_extract opm 0 5) OR 2),
                        c OR 1 := r s (unat (u32_extract opm 0 5) OR 1), c OR 0 := a)\<rparr>) \<and>
      (u32_extract opm 24 2 = 3 \<longrightarrow> reg_move s opm a b c =
         s\<lparr>r := (r s)(c OR 3 := r s (unat (u32_extract opm 0 5) OR 3),
                        c OR 2 := r s (unat (u32_extract opm 0 5) OR 2),
                        c OR 1 := r s (unat (u32_extract opm 0 5) OR 1), c OR 0 := a)\<rparr>)) \<and>
   (j div 2 \<noteq> c div 2 \<longrightarrow>
      r (mem_ldl s op efa c) j = r s j \<and>
      (u32_extract opm 24 2 = 1 \<longrightarrow> r (reg_move s opm a b c) j = r s j)) \<and>
   (j div 4 \<noteq> c div 4 \<longrightarrow>
      r (mem_ldt s op efa c) j = r s j \<and>
      r (mem_ldq s op efa c) j = r s j \<and>
      r (reg_move s opm a b c) j = r s j) \<and>
   (mem s = mem s' \<and> (\<forall>k. k div 2 = c div 2 \<longrightarrow> r s k = r s' k) \<longrightarrow>
      mem (mem_stl s op efa c) = mem (mem_stl s' op efa c)) \<and>
   (mem s = mem s' \<and> (\<forall>k. k div 4 = c div 4 \<longrightarrow> r s k = r s' k) \<longrightarrow>
      mem (mem_stt s op efa c) = mem (mem_stt s' op efa c) \<and>
      mem (mem_stq s op efa c) = mem (mem_stq s' op efa c)) \<and>
   r (mem_ldl s op efa c) (c OR 1) = i960_read_w s (efa + 4) \<and>
   r (mem_ldt s op efa c) (c OR 2) = i960_read_w s (efa + 8) \<and>
   r (mem_ldq s op efa c) (c OR 3) = i960_read_w s (efa + 12) \<and>
   (odd c \<longrightarrow>
      mem_ldl s op efa c = set_r s c (i960_read_w s (efa + 4)) \<and>
      mem_stl s op efa c = i960_write_w (i960_write_w s efa (r s c)) (efa + 4) (r s c) \<and>
      (u32_extract opm 24 2 = 1 \<longrightarrow> reg_move s opm a b c = set_r s c a)) \<and>
   (c mod 4 \<noteq> 0 \<longrightarrow>
      r (mem_ldt s op efa c) c \<in> {i960_read_w s (efa + 4), i960_read_w s (efa + 8)} \<and>
      r (mem_ldq s op efa c) c
        \<in> {i960_read_w s (efa + 4), i960_read_w s (efa + 8), i960_read_w s (efa + 12)}) \<and>
   (c mod 4 = 0 \<longrightarrow>
      r (mem_ldq s op efa c) c = i960_read_w s efa \<and>
      r (mem_ldq s op efa c) (c + 1) = i960_read_w s (efa + 4) \<and>
      r (mem_ldq s op efa c) (c + 2) = i960_read_w s (efa + 8) \<and>
      r (mem_ldq s op efa c) (c + 3) = i960_read_w s (efa + 12))"
proof -
  have mv: "u32_extract opm 24 2 = 0 \<longrightarrow> reg_move s opm a b c = set_r s (c OR 0) a"
    "u32_extract opm 24 2 = 1 \<longrightarrow> reg_move s opm a b c =
      s\<lparr>r := (r s)(c OR 1 := r s (unat (u32_extract opm 0 5) OR 1), c OR 0 := a)\<rparr>"
    "u32_extract opm 24 2 = 2 \<longrightarrow> reg_move s opm a b c =
      (let src = unat (u32_extract opm 0 5);
           f2 = (r s)(c OR 2 := r s (src OR 2));
           f1 = f2(c OR 1 := f2 (src OR 1))
       in s\<lparr>r := f1(c OR 0 := a)\<rparr>)"
    "u32_extract opm 24 2 = 3 \<longrightarrow> reg_move s opm a b c =
      (let src = unat (u32_extract opm 0 5);
           f3 = (r s)(c OR 3 := r s (src OR 3));
           f2 = f3(c OR 2 := f3 (src OR 2));
           f1 = f2(c OR 1 := f2 (src OR 1))
       in s\<lparr>r := f1(c OR 0 := a)\<rparr>)"
    using move_eq [of opm s a b c] by blast+
  have mvd: "unat (u32_extract opm 0 5) div 4 \<noteq> c div 4 \<longrightarrow>
      (u32_extract opm 24 2 = 2 \<longrightarrow> reg_move s opm a b c =
         s\<lparr>r := (r s)(c OR 2 := r s (unat (u32_extract opm 0 5) OR 2),
                        c OR 1 := r s (unat (u32_extract opm 0 5) OR 1), c OR 0 := a)\<rparr>) \<and>
      (u32_extract opm 24 2 = 3 \<longrightarrow> reg_move s opm a b c =
         s\<lparr>r := (r s)(c OR 3 := r s (unat (u32_extract opm 0 5) OR 3),
                        c OR 2 := r s (unat (u32_extract opm 0 5) OR 2),
                        c OR 1 := r s (unat (u32_extract opm 0 5) OR 1), c OR 0 := a)\<rparr>)"
    using move_disjoint [of opm c s a b] by blast
  have pair: "j div 2 \<noteq> c div 2 \<longrightarrow>
      r (mem_ldl s op efa c) j = r s j \<and>
      (u32_extract opm 24 2 = 1 \<longrightarrow> r (reg_move s opm a b c) j = r s j)"
    using outside_pair by blast
  have quad: "j div 4 \<noteq> c div 4 \<longrightarrow>
      r (mem_ldt s op efa c) j = r s j \<and>
      r (mem_ldq s op efa c) j = r s j \<and>
      r (reg_move s opm a b c) j = r s j"
    using outside_quad by blast
  have st2: "mem s = mem s' \<and> (\<forall>k. k div 2 = c div 2 \<longrightarrow> r s k = r s' k) \<longrightarrow>
      mem (mem_stl s op efa c) = mem (mem_stl s' op efa c)"
    using stores_from_group(1) by blast
  have st4: "mem s = mem s' \<and> (\<forall>k. k div 4 = c div 4 \<longrightarrow> r s k = r s' k) \<longrightarrow>
      mem (mem_stt s op efa c) = mem (mem_stt s' op efa c) \<and>
      mem (mem_stq s op efa c) = mem (mem_stq s' op efa c)"
    using stores_from_group(2,3) by blast
  have odd: "odd c \<longrightarrow>
      mem_ldl s op efa c = set_r s c (i960_read_w s (efa + 4)) \<and>
      mem_stl s op efa c = i960_write_w (i960_write_w s efa (r s c)) (efa + 4) (r s c) \<and>
      (u32_extract opm 24 2 = 1 \<longrightarrow> reg_move s opm a b c = set_r s c a)"
    using collapse by blast
  have unal: "c mod 4 \<noteq> 0 \<longrightarrow>
      r (mem_ldt s op efa c) c \<in> {i960_read_w s (efa + 4), i960_read_w s (efa + 8)} \<and>
      r (mem_ldq s op efa c) c
        \<in> {i960_read_w s (efa + 4), i960_read_w s (efa + 8), i960_read_w s (efa + 12)}"
    using unaligned_quad by blast
  have al: "c mod 4 = 0 \<longrightarrow>
      r (mem_ldq s op efa c) c = i960_read_w s efa \<and>
      r (mem_ldq s op efa c) (c + 1) = i960_read_w s (efa + 4) \<and>
      r (mem_ldq s op efa c) (c + 2) = i960_read_w s (efa + 8) \<and>
      r (mem_ldq s op efa c) (c + 3) = i960_read_w s (efa + 12)"
    using aligned_quad [of c s op efa] by simp
  from mv mvd pair quad st2 st4 last_word odd unal al show ?thesis
    by (intro conjI loads_eq stores_eq stl_readback stt_readback stq_readback)
qed

theorem multiword_index_or_witness:
  "(9 :: nat) div 2 \<noteq> 5 div 2 \<and> (9 :: nat) div 4 \<noteq> 5 div 4 \<and> odd (5 :: nat) \<and>
   (5 :: nat) mod 4 \<noteq> 0 \<and> (8 :: nat) mod 4 = 0 \<and>
   u32_extract 0x5C000604 24 2 = 0 \<and> u32_extract 0x5D000600 24 2 = 1 \<and>
   u32_extract 0x5E000604 24 2 = 2 \<and> u32_extract 0x5F000604 24 2 = 3 \<and>
   unat (u32_extract 0x5F000604 0 5) div 4 \<noteq> 8 div 4 \<and>
   r (mem_ldl xfer_state 0x98000000 0x100 5) 9 = 0x99 \<and>
   mem_ldl xfer_state 0x98000000 0x100 5 = set_r xfer_state 5 0x22 \<and>
   reg_move xfer_state 0x5D000600 0xAA 0 5 = set_r xfer_state 5 0xAA \<and>
   mem (mem_stl xfer_state 0x9A000000 0x100 5) = mem (mem_stl xfer_state' 0x9A000000 0x100 5) \<and>
   r (mem_ldq xfer_state 0xB0000000 0x100 5) 9 = 0x99 \<and>
   r (mem_ldq xfer_state 0xB0000000 0x100 5) 5 \<in> {0x22, 0x33, 0x44} \<and>
   mem (mem_stq xfer_state 0xB2000000 0x100 5) = mem (mem_stq xfer_state' 0xB2000000 0x100 5) \<and>
   i960_read_w (mem_stq xfer_state 0xB2000000 0x200 5) 0x200 = 0x55 \<and>
   i960_read_w (mem_stq xfer_state 0xB2000000 0x200 5) (0x200 + 4) = 0x55 \<and>
   i960_read_w (mem_stq xfer_state 0xB2000000 0x200 5) (0x200 + 8) = 0x77 \<and>
   i960_read_w (mem_stq xfer_state 0xB2000000 0x200 5) (0x200 + 12) = 0x77 \<and>
   r (mem_ldq xfer_state 0xB0000000 0x100 8) 8 = 0x11 \<and>
   r (mem_ldq xfer_state 0xB0000000 0x100 8) (8 + 1) = 0x22 \<and>
   r (mem_ldq xfer_state 0xB0000000 0x100 8) (8 + 2) = 0x33 \<and>
   r (mem_ldq xfer_state 0xB0000000 0x100 8) (8 + 3) = 0x44 \<and>
   reg_move xfer_state 0x5C000604 0x44 0 8 = set_r xfer_state 8 0x44 \<and>
   r (reg_move xfer_state 0x5E000604 0x44 0 8) 10 = 0x66 \<and>
   r (reg_move xfer_state 0x5E000604 0x44 0 8) 11 = 0 \<and>
   r (reg_move xfer_state 0x5F000604 0x44 0 8) 8 = 0x44 \<and>
   r (reg_move xfer_state 0x5F000604 0x44 0 8) 9 = 0x55 \<and>
   r (reg_move xfer_state 0x5F000604 0x44 0 8) 10 = 0x66 \<and>
   r (reg_move xfer_state 0x5F000604 0x44 0 8) 11 = 0x77"
proof -
  have hyp: "(9 :: nat) div 2 \<noteq> 5 div 2" "(9 :: nat) div 4 \<noteq> 5 div 4" "odd (5 :: nat)"
    "(5 :: nat) mod 4 \<noteq> 0" "(8 :: nat) mod 4 = 0"
    by simp_all
  have opm: "u32_extract 0x5C000604 24 2 = 0" "u32_extract 0x5D000600 24 2 = 1"
    "u32_extract 0x5E000604 24 2 = 2" "u32_extract 0x5F000604 24 2 = 3"
    by code_simp+
  have src: "unat (u32_extract 0x5E000604 0 5) = 4" "unat (u32_extract 0x5F000604 0 5) = 4"
    by code_simp+
  have dis: "unat (u32_extract 0x5E000604 0 5) div 4 \<noteq> 8 div 4"
    "unat (u32_extract 0x5F000604 0 5) div 4 \<noteq> 8 div 4"
    by (simp_all add: src)
  have ors: "(8 :: nat) OR 0 = 8" "(8 :: nat) OR 1 = 9" "(8 :: nat) OR 2 = 10"
    "(8 :: nat) OR 3 = 11" "(4 :: nat) OR 1 = 5" "(4 :: nat) OR 2 = 6" "(4 :: nat) OR 3 = 7"
    "(5 :: nat) OR 0 = 5" "(5 :: nat) OR 1 = 5" "(5 :: nat) OR 2 = 7" "(5 :: nat) OR 3 = 7"
    by simp_all
  have grp: "\<forall>k. k div 2 = (5 :: nat) div 2 \<longrightarrow> r xfer_state k = r xfer_state' k"
    "\<forall>k. k div 4 = (5 :: nat) div 4 \<longrightarrow> r xfer_state k = r xfer_state' k"
    by (auto simp add: xfer_state_def xfer_state'_def)
  have m: "mem xfer_state = mem xfer_state'"
    by (simp add: xfer_state_def xfer_state'_def)
  have rd: "i960_read_w xfer_state 0x100 = 0x11"
    "i960_read_w xfer_state (0x100 + 4) = 0x22"
    "i960_read_w xfer_state (0x100 + 8) = 0x33"
    "i960_read_w xfer_state (0x100 + 12) = 0x44"
    by (simp_all add: i960_read_w_def xfer_state_def reset_state_def)
  have regs: "r xfer_state 4 = 0x44" "r xfer_state 5 = 0x55" "r xfer_state 6 = 0x66"
    "r xfer_state 7 = 0x77" "r xfer_state 9 = 0x99" "r xfer_state 11 = 0"
    by (simp_all add: xfer_state_def reset_state_def)
  note t5l = multiword_index_or [where j = 9 and c = 5 and op = "0x98000000" and efa = "0x100"
      and opm = "0x5D000600" and a = "0xAA" and b = 0 and s = xfer_state and s' = xfer_state']
  note t5s = multiword_index_or [where j = 9 and c = 5 and op = "0x9A000000" and efa = "0x100"
      and opm = "0x5D000600" and a = "0xAA" and b = 0 and s = xfer_state and s' = xfer_state']
  note t5q = multiword_index_or [where j = 9 and c = 5 and op = "0xB0000000" and efa = "0x100"
      and opm = "0x5D000600" and a = "0xAA" and b = 0 and s = xfer_state and s' = xfer_state']
  note t5w = multiword_index_or [where j = 9 and c = 5 and op = "0xB2000000" and efa = "0x100"
      and opm = "0x5D000600" and a = "0xAA" and b = 0 and s = xfer_state and s' = xfer_state']
  note t5r = multiword_index_or [where j = 9 and c = 5 and op = "0xB2000000" and efa = "0x200"
      and opm = "0x5D000600" and a = "0xAA" and b = 0 and s = xfer_state and s' = xfer_state']
  note t8q = multiword_index_or [where j = 9 and c = 8 and op = "0xB0000000" and efa = "0x100"
      and opm = "0x5F000604" and a = "0x44" and b = 0 and s = xfer_state and s' = xfer_state']
  note t8t = multiword_index_or [where j = 9 and c = 8 and op = "0xB0000000" and efa = "0x100"
      and opm = "0x5E000604" and a = "0x44" and b = 0 and s = xfer_state and s' = xfer_state']
  note t8m = multiword_index_or [where j = 9 and c = 8 and op = "0xB0000000" and efa = "0x100"
      and opm = "0x5C000604" and a = "0x44" and b = 0 and s = xfer_state and s' = xfer_state']
  note ldl = t5l [THEN conjunct2, THEN conjunct2, THEN conjunct2, THEN conjunct2, THEN conjunct2, THEN conjunct2, THEN conjunct2, THEN conjunct2, THEN conjunct1, THEN mp, OF hyp(1), THEN conjunct1, unfolded regs]
  note odd5 = t5l [THEN conjunct2, THEN conjunct2, THEN conjunct2, THEN conjunct2, THEN conjunct2, THEN conjunct2, THEN conjunct2, THEN conjunct2, THEN conjunct2, THEN conjunct2, THEN conjunct2, THEN conjunct2, THEN conjunct2, THEN conjunct2, THEN conjunct2, THEN conjunct1, THEN mp, OF hyp(3)]
  note ldl_odd = odd5 [THEN conjunct1, unfolded rd]
  note mov = odd5 [THEN conjunct2, THEN conjunct2, THEN mp, OF opm(2)]
  note stl = t5s [THEN conjunct2, THEN conjunct2, THEN conjunct2, THEN conjunct2, THEN conjunct2, THEN conjunct2, THEN conjunct2, THEN conjunct2, THEN conjunct2, THEN conjunct2, THEN conjunct1, THEN mp, OF conjI [OF m grp(1)]]
  note ldq = t5q [THEN conjunct2, THEN conjunct2, THEN conjunct2, THEN conjunct2, THEN conjunct2, THEN conjunct2, THEN conjunct2, THEN conjunct2, THEN conjunct2, THEN conjunct1, THEN mp, OF hyp(2), THEN conjunct2, THEN conjunct1, unfolded regs]
  note ldq5 = t5q [THEN conjunct2, THEN conjunct2, THEN conjunct2, THEN conjunct2, THEN conjunct2, THEN conjunct2, THEN conjunct2, THEN conjunct2, THEN conjunct2, THEN conjunct2, THEN conjunct2, THEN conjunct2, THEN conjunct2, THEN conjunct2, THEN conjunct2, THEN conjunct2, THEN conjunct1, THEN mp, OF hyp(4), THEN conjunct2, unfolded rd]
  note stq = t5w [THEN conjunct2, THEN conjunct2, THEN conjunct2, THEN conjunct2, THEN conjunct2, THEN conjunct2, THEN conjunct2, THEN conjunct2, THEN conjunct2, THEN conjunct2, THEN conjunct2, THEN conjunct1, THEN mp, OF conjI [OF m grp(2)], THEN conjunct2]
  note rb0 = t5r [THEN conjunct2, THEN conjunct2, THEN conjunct1, THEN conjunct2, THEN conjunct2, THEN conjunct2, THEN conjunct2, THEN conjunct2, THEN conjunct1, unfolded ors regs]
  note rb1 = t5r [THEN conjunct2, THEN conjunct2, THEN conjunct1, THEN conjunct2, THEN conjunct2, THEN conjunct2, THEN conjunct2, THEN conjunct2, THEN conjunct2, THEN conjunct1, unfolded ors regs]
  note rb2 = t5r [THEN conjunct2, THEN conjunct2, THEN conjunct1, THEN conjunct2, THEN conjunct2, THEN conjunct2, THEN conjunct2, THEN conjunct2, THEN conjunct2, THEN conjunct2, THEN conjunct1, unfolded ors regs]
  note rb3 = t5r [THEN conjunct2, THEN conjunct2, THEN conjunct1, THEN conjunct2, THEN conjunct2, THEN conjunct2, THEN conjunct2, THEN conjunct2, THEN conjunct2, THEN conjunct2, THEN conjunct2, unfolded ors regs]
  note al = t8q [THEN conjunct2, THEN conjunct2, THEN conjunct2, THEN conjunct2, THEN conjunct2, THEN conjunct2, THEN conjunct2, THEN conjunct2, THEN conjunct2, THEN conjunct2, THEN conjunct2, THEN conjunct2, THEN conjunct2, THEN conjunct2, THEN conjunct2, THEN conjunct2, THEN conjunct2, THEN mp, OF hyp(5)]
  note al0 = al [THEN conjunct1, unfolded rd]
  note al1 = al [THEN conjunct2, THEN conjunct1, unfolded rd]
  note al2 = al [THEN conjunct2, THEN conjunct2, THEN conjunct1, unfolded rd]
  note al3 = al [THEN conjunct2, THEN conjunct2, THEN conjunct2, unfolded rd]
  note m0 = t8m [THEN conjunct2, THEN conjunct2, THEN conjunct2, THEN conjunct1, THEN mp, OF opm(1), unfolded ors]
  note m2 = t8t [THEN conjunct2, THEN conjunct2, THEN conjunct2, THEN conjunct2, THEN conjunct2, THEN conjunct2, THEN conjunct2, THEN conjunct1, THEN mp, OF dis(1), THEN conjunct1, THEN mp, OF opm(3),
      unfolded src ors regs]
  note m3 = t8q [THEN conjunct2, THEN conjunct2, THEN conjunct2, THEN conjunct2, THEN conjunct2, THEN conjunct2, THEN conjunct2, THEN conjunct1, THEN mp, OF dis(2), THEN conjunct2, THEN mp, OF opm(4),
      unfolded src ors regs]
  have mt: "r (reg_move xfer_state 0x5E000604 0x44 0 8) 10 = 0x66"
    "r (reg_move xfer_state 0x5E000604 0x44 0 8) 11 = 0"
    by (simp_all add: m2 regs)
  have mq: "r (reg_move xfer_state 0x5F000604 0x44 0 8) 8 = 0x44"
    "r (reg_move xfer_state 0x5F000604 0x44 0 8) 9 = 0x55"
    "r (reg_move xfer_state 0x5F000604 0x44 0 8) 10 = 0x66"
    "r (reg_move xfer_state 0x5F000604 0x44 0 8) 11 = 0x77"
    by (simp_all add: m3)
  show ?thesis
    by (intro conjI hyp opm dis(2) ldl ldl_odd mov stl ldq ldq5 stq rb0 rb1 rb2 rb3
        al0 al1 al2 al3 m0 mt mq)
qed

end
